theory Spec2Isabelle
  imports Complex_Main
begin

section \<open>Values, exceptions and the observable trace\<close>

text \<open>
  Python values that reach the governance layer as tool arguments or session entries.
  A finite float is kept as the rational it denotes (Python compares ints and floats by
  value); NaN and the infinities are outside the model. A \<^typ>\<open>string\<close> is a Python
  \<^verbatim>\<open>str\<close> that the code only compares, formats or passes on; the few non-ASCII characters
  of the source's literals are written as their UTF-8 bytes.
\<close>

datatype pyval = PNone | PBool bool | PInt int | PFloat rat | PStr string

datatype exn = ValueError string | TypeError string | OverflowError string | Exception string

text \<open>
  Text that the code slices is a list of code points, so that \<^verbatim>\<open>s[:100]\<close> is \<open>take 100\<close>.
\<close>

type_synonym unicode = "nat list"

definition ascii :: "string \<Rightarrow> unicode" where
  "ascii s = map of_char s"

text \<open>
  The judge's result object (\<^verbatim>\<open>AgentAsJudgeEvaluation\<close>), as far as the escalation hook reads it.
  The score and the input may be \<^verbatim>\<open>None\<close>; \<open>result_name\<close> is \<open>None\<close> when the object has no
  \<^verbatim>\<open>name\<close> attribute.
\<close>

record evaluation =
  result_score :: "int option"
  result_passed :: bool
  result_input :: "unicode option"
  result_name :: "unicode option"
  result_reason :: unicode

text \<open>
  The Slack message: a fixed block template around the values interpolated into it.
\<close>

record payload =
  payload_score :: int
  payload_passed :: bool
  payload_color :: string
  payload_input :: unicode
  payload_name :: unicode
  payload_reason :: unicode

datatype level = INFO | WARNING | ERROR

type_synonym kwargs = "(string \<times> pyval) list"

text \<open>
  An argument of a log call. \<open>AJson d\<close> is the text \<^verbatim>\<open>json.dumps(d, default=str)\<close>, kept as the
  dictionary it is computed from.
\<close>

datatype logarg =
  AStr string | AVal pyval | ANum rat | AJson kwargs | AResult evaluation | AExn exn

text \<open>
  Everything the code does besides returning is an event of a trace, in program order:
  a call of \<^verbatim>\<open>logger.info/warning/error\<close> (level, format string, arguments, as
  Python's \<^verbatim>\<open>LogRecord\<close> keeps them), one run of the governed action with its keyword
  arguments, a \<^verbatim>\<open>print\<close>, an outbound \<^verbatim>\<open>httpx.post\<close>.
\<close>

datatype event =
    Log level string "logarg list"
  | Invoke kwargs
  | Print string
  | HttpPost string payload

text \<open>A computation returns or raises, and leaves a trace.\<close>

type_synonym 'r comp = "(exn + 'r) \<times> event list"

text \<open>The governed action itself: its outcome is \<open>f arguments\<close>, and running it is one \<open>Invoke\<close>.\<close>

definition invoke :: "(kwargs \<Rightarrow> exn + 'r) \<Rightarrow> kwargs \<Rightarrow> 'r comp" where
  "invoke f arguments = (f arguments, [Invoke arguments])"

fun invocations :: "event list \<Rightarrow> kwargs list" where
  "invocations [] = []"
| "invocations (Invoke a # es) = a # invocations es"
| "invocations (e # es) = invocations es"

text \<open>\<^verbatim>\<open>d.get(key, default)\<close>, on the result of the lookup.\<close>

fun dict_get :: "'a option \<Rightarrow> 'a \<Rightarrow> 'a" where
  "dict_get None d = d"
| "dict_get (Some v) d = v"

section \<open>The constitution: rules and conditions\<close>

text \<open>
  A rule is a YAML mapping; each of its four keys may be missing.
\<close>

record rule =
  condition :: "string option"
  action :: "string option"
  reason :: "string option"
  threshold :: "rat option"

type_synonym constitution = "string \<rightharpoonup> rule list"

record run_context =
  session_state :: "(string \<rightharpoonup> pyval) option"

text \<open>
  \<^verbatim>\<open>float(n)\<close> for an integer: exact below \<open>2^53\<close>; beyond, the nearest double (53 significant
  bits, ties to even), and \<^verbatim>\<open>OverflowError\<close> when that would be \<open>2^1024\<close> or more.
\<close>

function bit_length :: "int \<Rightarrow> nat" where
  "bit_length a = (if a \<le> 0 then 0 else Suc (bit_length (a div 2)))"
  by pat_completeness auto
termination
  by (relation "measure nat") auto

declare bit_length.simps [simp del]

definition float_of_int :: "int \<Rightarrow> exn + rat" where
  "float_of_int n =
     (let a = \<bar>n\<bar> in
      if a < 9007199254740992 then Inr (of_int n)
      else
        (let sh = bit_length a - 53;
             q = a div 2 ^ sh;
             r = a mod 2 ^ sh;
             half = 2 ^ (sh - 1);
             q' = (if r > half \<or> (r = half \<and> odd q) then q + 1 else q);
             v = q' * 2 ^ sh
         in if v \<ge> 2 ^ 1024 then Inl (OverflowError ''int too large to convert to float'')
            else Inr (of_int (if n < 0 then - v else v))))"

text \<open>
  \<^verbatim>\<open>float(amount)\<close>. What \<^verbatim>\<open>float\<close> makes of a \<^verbatim>\<open>str\<close> is Python's business, so it is the
  parameter \<open>str_float\<close>, \<open>None\<close> where \<^verbatim>\<open>float\<close> raises \<^verbatim>\<open>ValueError\<close>.
\<close>

fun py_float :: "(string \<Rightarrow> rat option) \<Rightarrow> pyval \<Rightarrow> exn + rat" where
  "py_float str_float PNone = Inl (TypeError ''float() argument must be a string or a real number'')"
| "py_float str_float (PBool b) = Inr (if b then 1 else 0)"
| "py_float str_float (PInt n) = float_of_int n"
| "py_float str_float (PFloat x) = Inr x"
| "py_float str_float (PStr s) =
     (case str_float s of
        None \<Rightarrow> Inl (ValueError ''could not convert string to float'')
      | Some x \<Rightarrow> Inr x)"

text \<open>The left operand of \<^verbatim>\<open>>=\<close> against a number: \<open>None\<close> where Python raises TypeError.\<close>

fun py_number :: "pyval \<Rightarrow> rat option" where
  "py_number PNone = None"
| "py_number (PBool b) = Some (if b then 1 else 0)"
| "py_number (PInt n) = Some (of_int n)"
| "py_number (PFloat x) = Some x"
| "py_number (PStr s) = None"

text \<open>\<^verbatim>\<open>threshold or default\<close>: a missing threshold is falsy, and so is zero.\<close>

fun or_default :: "rat option \<Rightarrow> rat \<Rightarrow> rat" where
  "or_default None d = d"
| "or_default (Some t) d = (if t = 0 then d else t)"

definition unknown_condition_msg :: string where
  "unknown_condition_msg = ''Unknown constitution condition '%s'; defaulting to no-match.''"

text \<open>
  The \<^verbatim>\<open>try\<close> around \<^verbatim>\<open>float(amount)\<close> catches \<^verbatim>\<open>TypeError\<close> and \<^verbatim>\<open>ValueError\<close> only; any other
  exception leaves the function.
\<close>

definition evaluate_condition ::
  "(string \<Rightarrow> rat option) \<Rightarrow> string \<Rightarrow> (string \<rightharpoonup> pyval) \<Rightarrow> kwargs \<Rightarrow> rat option \<Rightarrow> bool comp" where
  "evaluate_condition str_float cond session arguments thr =
     (if cond = ''any'' then (Inr True, [])
      else if cond = ''high_value'' then
        (let amount = dict_get (map_of arguments ''amount'') (PInt 0)
         in case py_float str_float amount of
              Inr x \<Rightarrow> (Inr (x \<ge> or_default thr 100), [])
            | Inl (TypeError m) \<Rightarrow> (Inr (0 \<ge> or_default thr 100), [])
            | Inl (ValueError m) \<Rightarrow> (Inr (0 \<ge> or_default thr 100), [])
            | Inl e \<Rightarrow> (Inl e, []))
      else if cond = ''high_tenure'' then
        (let tenure_days = dict_get (session ''customer_tenure_days'') (PInt 0)
         in case py_number tenure_days of
              None \<Rightarrow> (Inl (TypeError ''>= not supported''), [])
            | Some t \<Rightarrow> (Inr (t \<ge> or_default thr 730), []))
      else (Inr False, [Log WARNING unknown_condition_msg [AStr cond]]))"

section \<open>The constitution hook\<close>

definition em_dash :: string where
  "em_dash = [CHR 0xE2, CHR 0x80, CHR 0x94]"

definition block_msg :: "string \<Rightarrow> string \<Rightarrow> string" where
  "block_msg function_name rsn = ''[Intent Block] '' @ function_name @ '' denied: '' @ rsn"

definition escalation_msg :: "string \<Rightarrow> string \<Rightarrow> string" where
  "escalation_msg function_name rsn =
     ''[Intent Escalation] '' @ function_name @ '' requires human review: '' @ rsn"

definition reject_fmt :: string where
  "reject_fmt = ''[CONSTITUTION REJECT] %s '' @ em_dash @ '' %s (tier=%s)''"

definition escalate_fmt :: string where
  "escalate_fmt = ''[CONSTITUTION ESCALATE] %s '' @ em_dash @ '' %s (tier=%s)''"

definition approve_fmt :: string where
  "approve_fmt = ''[CONSTITUTION APPROVE] %s '' @ em_dash @ '' %s''"

text \<open>
  The \<^verbatim>\<open>for rule in rules\<close> loop. \<open>Inr ()\<close> is leaving the loop (by \<^verbatim>\<open>break\<close> or at the
  end of the list) towards the call of the action; \<open>Inl\<close> is the exception raised inside.
\<close>

fun run_rules ::
  "(string \<Rightarrow> rat option) \<Rightarrow> string \<Rightarrow> (string \<rightharpoonup> pyval) \<Rightarrow> pyval \<Rightarrow> kwargs \<Rightarrow> rule list \<Rightarrow> unit comp" where
  "run_rules str_float function_name session customer_tier arguments [] = (Inr (), [])"
| "run_rules str_float function_name session customer_tier arguments (r # rules) =
     (let cond = dict_get (condition r) ''any'';
          act = dict_get (action r) ''approve'';
          rsn = dict_get (reason r) [];
          thr = threshold r;
          (matched, evs) = evaluate_condition str_float cond session arguments thr
      in case matched of
           Inl e \<Rightarrow> (Inl e, evs)
         | Inr False \<Rightarrow>
             (let (res, evs') = run_rules str_float function_name session customer_tier arguments rules
              in (res, evs @ evs'))
         | Inr True \<Rightarrow>
             if act = ''reject'' \<and> customer_tier \<noteq> PStr ''enterprise'' then
               (Inl (ValueError (block_msg function_name rsn)),
                evs @ [Log INFO reject_fmt [AStr function_name, AStr rsn, AVal customer_tier]])
             else if act = ''escalate'' then
               (Inl (ValueError (escalation_msg function_name rsn)),
                evs @ [Log WARNING escalate_fmt [AStr function_name, AStr rsn, AVal customer_tier]])
             else if act = ''approve'' then
               (Inr (),
                evs @ [Log INFO approve_fmt [AStr function_name, AStr rsn]])
             else
               (let (res, evs') = run_rules str_float function_name session customer_tier arguments rules
                in (res, evs @ evs')))"

text \<open>
  \<^verbatim>\<open>_load_constitution\<close>: \<open>doc\<close> is what opening and parsing the file gave at this call,
  an exception or the parsed document, \<open>None\<close> for an empty one
  (\<^verbatim>\<open>yaml.safe_load(fh) or {}\<close>).
\<close>

definition load_constitution :: "exn + constitution option \<Rightarrow> exn + constitution" where
  "load_constitution doc =
     (case doc of
        Inl e \<Rightarrow> Inl e
      | Inr None \<Rightarrow> Inr Map.empty
      | Inr (Some c) \<Rightarrow> Inr c)"

definition intent_constitution_hook ::
  "(string \<Rightarrow> rat option) \<Rightarrow> exn + constitution option \<Rightarrow> run_context \<Rightarrow> string \<Rightarrow>
     (kwargs \<Rightarrow> 'r comp) \<Rightarrow> kwargs \<Rightarrow> 'r comp" where
  "intent_constitution_hook str_float doc ctx function_name function_call arguments =
     (case load_constitution doc of
        Inl e \<Rightarrow> (Inl e, [])
      | Inr constitution \<Rightarrow>
          (let rules = dict_get (constitution function_name) [];
               session = dict_get (session_state ctx) Map.empty;
               customer_tier = dict_get (session ''customer_tier'') (PStr ''standard'')
           in case run_rules str_float function_name session customer_tier arguments rules of
                (Inl e, evs) \<Rightarrow> (Inl e, evs)
              | (Inr _, evs) \<Rightarrow>
                  (let (res, evs') = function_call arguments in (res, evs @ evs'))))"

text \<open>Names for what the loop reads off the context and off one rule.\<close>

definition session_of :: "run_context \<Rightarrow> (string \<rightharpoonup> pyval)" where
  "session_of ctx = dict_get (session_state ctx) Map.empty"

definition tier_of :: "run_context \<Rightarrow> pyval" where
  "tier_of ctx = dict_get (session_of ctx ''customer_tier'') (PStr ''standard'')"

definition rule_eval ::
  "(string \<Rightarrow> rat option) \<Rightarrow> (string \<rightharpoonup> pyval) \<Rightarrow> kwargs \<Rightarrow> rule \<Rightarrow> exn + bool" where
  "rule_eval str_float session arguments r =
     fst (evaluate_condition str_float (dict_get (condition r) ''any'') session arguments (threshold r))"

definition rule_logs ::
  "(string \<Rightarrow> rat option) \<Rightarrow> (string \<rightharpoonup> pyval) \<Rightarrow> kwargs \<Rightarrow> rule \<Rightarrow> event list" where
  "rule_logs str_float session arguments r =
     snd (evaluate_condition str_float (dict_get (condition r) ''any'') session arguments (threshold r))"

subsection \<open>The condition semantics as the specification words it\<close>

text \<open>
  \<open>spec_amount\<close>: \<^verbatim>\<open>arguments["amount"]\<close> coerced to a number, non-numeric or absent giving 0.
  \<open>spec_condition\<close>: \<^verbatim>\<open>any\<close> always true; \<^verbatim>\<open>high_value\<close> true when the amount is at least
  the threshold, 100 when the threshold is absent; \<^verbatim>\<open>high_tenure\<close> true when the tenure is
  at least the threshold, 730 when it is absent; any other name false.
\<close>

definition spec_amount :: "(string \<Rightarrow> rat option) \<Rightarrow> kwargs \<Rightarrow> rat" where
  "spec_amount str_float arguments =
     (case map_of arguments ''amount'' of
        None \<Rightarrow> 0
      | Some v \<Rightarrow> (case py_float str_float v of Inl e \<Rightarrow> 0 | Inr x \<Rightarrow> x))"

definition spec_condition ::
  "(string \<Rightarrow> rat option) \<Rightarrow> string \<Rightarrow> rat \<Rightarrow> kwargs \<Rightarrow> rat option \<Rightarrow> bool" where
  "spec_condition str_float cond tenure_days arguments thr =
     (if cond = ''any'' then True
      else if cond = ''high_value'' then
        spec_amount str_float arguments \<ge> (case thr of None \<Rightarrow> 100 | Some t \<Rightarrow> t)
      else if cond = ''high_tenure'' then
        tenure_days \<ge> (case thr of None \<Rightarrow> 730 | Some t \<Rightarrow> t)
      else False)"

section \<open>The audit logger hook\<close>

definition sanitise :: "kwargs \<Rightarrow> kwargs" where
  "sanitise arguments =
     map (\<lambda>(k, v). (k, if k \<notin> set [''password'', ''token'', ''secret''] then v else PStr ''***''))
       arguments"

definition audit_start :: "string \<Rightarrow> kwargs \<Rightarrow> event" where
  "audit_start function_name sanitised_args =
     Log INFO ''[AUDIT START] %s | args=%s'' [AStr function_name, AJson sanitised_args]"

definition audit_end :: "string \<Rightarrow> rat \<Rightarrow> event" where
  "audit_end function_name elapsed =
     Log INFO ''[AUDIT END]   %s | %.3fs'' [AStr function_name, ANum elapsed]"

text \<open>
  \<open>clock\<close> holds the two readings of \<^verbatim>\<open>time.perf_counter()\<close>, before and after the call.
  The function has no \<^verbatim>\<open>try\<close>: when the call raises, nothing after it runs.
\<close>

definition logger_hook ::
  "rat \<times> rat \<Rightarrow> string \<Rightarrow> (kwargs \<Rightarrow> 'r comp) \<Rightarrow> kwargs \<Rightarrow> 'r comp" where
  "logger_hook clock function_name function_call arguments =
     (let sanitised_args = sanitise arguments;
          start = fst clock;
          (res, evs) = function_call arguments
      in case res of
           Inl e \<Rightarrow> (Inl e, audit_start function_name sanitised_args # evs)
         | Inr result \<Rightarrow>
             (let elapsed = snd clock - start
              in (Inr result,
                  audit_start function_name sanitised_args # evs @ [audit_end function_name elapsed])))"

text \<open>Reading a trace: the end records in it, and what a log record carries.\<close>

fun is_audit_end :: "event \<Rightarrow> bool" where
  "is_audit_end (Log lvl fmt as) = (fmt = ''[AUDIT END]   %s | %.3fs'')"
| "is_audit_end e = False"

fun log_args :: "event \<Rightarrow> logarg list" where
  "log_args (Log lvl fmt as) = as"
| "log_args e = []"

section \<open>Escalation delivery\<close>

definition warning_sign :: string where
  "warning_sign = [CHR 0xE2, CHR 0x9A, CHR 0xA0, CHR 0xEF, CHR 0xB8, CHR 0x8F]"

definition escalation_banner :: string where
  "escalation_banner =
     [CHR 0x0A] @ warning_sign @ ''  [ESCALATION] Agent output failed intent check ''
       @ em_dash @ '' review required.'' @ [CHR 0x0A]"

definition default_escalation_hook :: "evaluation \<Rightarrow> unit comp" where
  "default_escalation_hook result =
     (Inr (),
      [Log ERROR ''[ESCALATION] Output failed intent alignment check.'' [],
       Log ERROR ''[ESCALATION] Result: %s'' [AResult result],
       Print escalation_banner])"

record slack_escalation_hook =
  webhook_url :: "string option"

text \<open>Truthiness of an optional \<^verbatim>\<open>str\<close>: \<^verbatim>\<open>None\<close> and the empty string are falsy.\<close>

fun truthy :: "string option \<Rightarrow> bool" where
  "truthy None = False"
| "truthy (Some s) = (s \<noteq> [])"

text \<open>\<^verbatim>\<open>__init__\<close>; \<open>env\<close> is \<^verbatim>\<open>os.getenv("SLACK_WEBHOOK_URL")\<close>.\<close>

definition slack_init :: "string option \<Rightarrow> string option \<Rightarrow> slack_escalation_hook comp" where
  "slack_init url env =
     (let u = (if truthy url then url else env)
      in (Inr \<lparr>webhook_url = u\<rparr>,
          if \<not> truthy u
          then [Log WARNING ''SlackEscalationHook initialized without a webhook URL.'' []]
          else []))"

text \<open>
  The lines of \<^verbatim>\<open>__call__\<close> between the URL test and the \<^verbatim>\<open>try\<close>: the colour from
  \<^verbatim>\<open>result.score < 5\<close>, then the payload with \<^verbatim>\<open>result.input[:100]\<close>. A score or an input that
  is \<^verbatim>\<open>None\<close> raises \<^verbatim>\<open>TypeError\<close> there.
\<close>

definition build_payload :: "evaluation \<Rightarrow> exn + payload" where
  "build_payload result =
     (case result_score result of
        None \<Rightarrow> Inl (TypeError ''< not supported between instances of NoneType and int'')
      | Some score \<Rightarrow>
          (let score_color = (if score < 5 then ''#eb4034'' else ''#fca103'')
           in case result_input result of
                None \<Rightarrow> Inl (TypeError ''NoneType object is not subscriptable'')
              | Some inp \<Rightarrow>
                  Inr \<lparr>payload_score = score,
                       payload_passed = result_passed result,
                       payload_color = score_color,
                       payload_input = take 100 inp @ ascii ''...'',
                       payload_name = dict_get (result_name result) (ascii ''Intent Check''),
                       payload_reason = result_reason result\<rparr>))"

text \<open>
  \<^verbatim>\<open>__call__\<close>. \<open>post\<close> is \<^verbatim>\<open>httpx.post\<close> (it returns a response or raises),
  \<open>raise_for_status\<close> the response's check (\<open>Some\<close> the exception it raises). The payload is
  built before the \<^verbatim>\<open>try\<close>, so an exception of \<open>build_payload\<close> leaves the hook; the
  \<^verbatim>\<open>except Exception\<close> covers the post and the status check.
\<close>

definition slack_call ::
  "(string \<Rightarrow> payload \<Rightarrow> exn + 'resp) \<Rightarrow> ('resp \<Rightarrow> exn option) \<Rightarrow>
     slack_escalation_hook \<Rightarrow> evaluation \<Rightarrow> unit comp" where
  "slack_call post raise_for_status self result =
     (if \<not> truthy (webhook_url self) then default_escalation_hook result
      else
        (let url = dict_get (webhook_url self) []
         in case build_payload result of
              Inl e \<Rightarrow> (Inl e, [])
            | Inr body \<Rightarrow>
                (let failed = (\<lambda>exc.
                       (let (res, evs) = default_escalation_hook result
                        in (res, [HttpPost url body,
                                  Log ERROR ''[SLACK] Failed to send escalation alert: %s'' [AExn exc]]
                                 @ evs)))
                 in case post url body of
                      Inl exc \<Rightarrow> failed exc
                    | Inr response \<Rightarrow>
                        (case raise_for_status response of
                           Some exc \<Rightarrow> failed exc
                         | None \<Rightarrow>
                             (Inr (), [HttpPost url body,
                                       Log INFO ''[SLACK] Escalation alert sent successfully.'' []])))))"

section \<open>The governor: wiring the hooks into an agent\<close>

text \<open>
  A tool hook is a callable; the list holds the module's \<^verbatim>\<open>logger_hook\<close>, the closure
  \<^verbatim>\<open>create_constitution_hook(path)\<close>, or a callable the agent's owner had put there.
\<close>

datatype 'h tool_hook = Logger_hook | Constitution_hook string | Caller_hook 'h

datatype 'i instructions =
    Intent_retriever string "(string \<times> string) list option"
  | Caller_instructions 'i

record ('h, 'i) agent =
  tool_hooks :: "'h tool_hook list option"
  instructions :: "'i instructions"

record intent_governor =
  constitution_path :: string
  base_intent :: string
  strategy_overrides :: "(string \<times> string) list option"

definition wrap :: "intent_governor \<Rightarrow> ('h, 'i) agent \<Rightarrow> ('h, 'i) agent" where
  "wrap self agent =
     (let existing_hooks = dict_get (tool_hooks agent) []
      in agent\<lparr>tool_hooks := Some ([Logger_hook, Constitution_hook (constitution_path self)] @ existing_hooks),
              instructions := Intent_retriever (base_intent self) (strategy_overrides self)\<rparr>)"

section \<open>Fixtures of the test suite\<close>

text \<open>
  The constitution, the two run contexts and the calls of \<^verbatim>\<open>tests/test_constitution_hook.py\<close>.
  No argument of the tests is a string that \<^verbatim>\<open>float\<close> has to read.
\<close>

definition test_constitution :: constitution where
  "test_constitution =
     [''stripe_refund'' \<mapsto>
        [\<lparr>condition = Some ''high_value'', action = Some ''reject'',
          reason = Some ''Only enterprise accounts can auto-refund >= $100.'', threshold = Some 100\<rparr>,
         \<lparr>condition = Some ''any'', action = Some ''approve'',
          reason = Some ''Standard refund approved.'', threshold = None\<rparr>],
      ''send_email'' \<mapsto>
        [\<lparr>condition = Some ''any'', action = Some ''approve'',
          reason = Some ''Email is low-risk.'', threshold = None\<rparr>]]"

definition ctx_standard :: run_context where
  "ctx_standard = \<lparr>session_state = Some [''customer_tier'' \<mapsto> PStr ''standard'']\<rparr>"

definition ctx_enterprise :: run_context where
  "ctx_enterprise = \<lparr>session_state = Some [''customer_tier'' \<mapsto> PStr ''enterprise'']\<rparr>"

definition refund_500 :: kwargs where
  "refund_500 = [(''customer_id'', PStr ''C-1''), (''amount'', PInt 500)]"

definition refund_50 :: kwargs where
  "refund_50 = [(''customer_id'', PStr ''C-1''), (''amount'', PInt 50)]"

definition no_str_float :: "string \<Rightarrow> rat option" where
  "no_str_float s = None"

definition mock_fn :: "kwargs \<Rightarrow> exn + string" where
  "mock_fn arguments = Inr ''ok''"

text \<open>
  Further inputs: constitutions that exercise an unknown condition, an approve rule ahead of
  a reject rule, an escalate rule on tenure (the session of \<^verbatim>\<open>main.py\<close> has 800 days), a rule
  with no keys and a zero threshold; a call with a password; an action that raises; a judge
  result below the threshold, the same result without a score and without an input, and
  webhook endpoints that time out or answer with a status.
\<close>

definition unmatched_constitution :: constitution where
  "unmatched_constitution =
     [''stripe_refund'' \<mapsto>
        [\<lparr>condition = Some ''high_value'', action = Some ''reject'',
          reason = Some ''too much'', threshold = Some 100\<rparr>,
         \<lparr>condition = Some ''vip_only'', action = Some ''escalate'',
          reason = Some ''unknown condition'', threshold = None\<rparr>]]"

definition approve_first_constitution :: constitution where
  "approve_first_constitution =
     [''pay'' \<mapsto>
        [\<lparr>condition = Some ''any'', action = Some ''approve'',
          reason = Some ''r1'', threshold = None\<rparr>,
         \<lparr>condition = Some ''high_value'', action = Some ''reject'',
          reason = Some ''r2'', threshold = Some 100\<rparr>]]"

definition escalate_constitution :: constitution where
  "escalate_constitution =
     [''cancel_subscription'' \<mapsto>
        [\<lparr>condition = Some ''high_tenure'', action = Some ''escalate'',
          reason = Some ''Long-tenure cancellation needs review.'', threshold = None\<rparr>]]"

definition ctx_enterprise_800 :: run_context where
  "ctx_enterprise_800 =
     \<lparr>session_state = Some [''customer_tier'' \<mapsto> PStr ''enterprise'',
                             ''customer_tenure_days'' \<mapsto> PInt 800]\<rparr>"

text \<open>The session of \<^verbatim>\<open>main.py\<close>.\<close>

definition session_state_main :: run_context where
  "session_state_main =
     \<lparr>session_state = Some [''customer_tier'' \<mapsto> PStr ''standard'',
                             ''customer_tenure_days'' \<mapsto> PInt 800,
                             ''org_goal'' \<mapsto> PStr ''retention'']\<rparr>"

definition empty_rule :: rule where
  "empty_rule = \<lparr>condition = None, action = None, reason = None, threshold = None\<rparr>"

definition empty_rule_constitution :: constitution where
  "empty_rule_constitution =
     [''send_email'' \<mapsto>
        [empty_rule,
         \<lparr>condition = Some ''any'', action = Some ''reject'',
          reason = Some ''never reached'', threshold = None\<rparr>]]"

definition failing_fn :: "kwargs \<Rightarrow> exn + string" where
  "failing_fn arguments = Inl (Exception ''Stripe is unreachable'')"

definition login_args :: kwargs where
  "login_args = [(''user'', PStr ''bob''), (''password'', PStr ''hunter2'')]"

definition zero_threshold_constitution :: constitution where
  "zero_threshold_constitution =
     [''stripe_refund'' \<mapsto>
        [\<lparr>condition = Some ''high_value'', action = Some ''reject'',
          reason = Some ''No automatic refunds.'', threshold = Some 0\<rparr>]]"








definition governor :: intent_governor where
  "governor =
     \<lparr>constitution_path = ''constitutions/acme_corp.yaml'',
      base_intent = ''You are a support agent for Acme Corp.'',
      strategy_overrides = None\<rparr>"

section \<open>Properties of the rule loop\<close>

text \<open>The integer conversion: exact on small integers, and its only exception.\<close>

lemma float_of_int_errors:
  "float_of_int n = Inl e \<Longrightarrow> e = OverflowError ''int too large to convert to float''"
  by (auto simp: float_of_int_def Let_def split: if_splits)

lemma py_float_errors:
  "py_float sf v = Inl e \<Longrightarrow> (\<exists>m. e = TypeError m \<or> e = ValueError m \<or> e = OverflowError m)"
  by (cases v) (auto dest: float_of_int_errors split: option.splits)

lemma float_of_small_int: "\<bar>n\<bar> < 9007199254740992 \<Longrightarrow> float_of_int n = Inr (of_int n)"
  by (simp add: float_of_int_def Let_def)

text \<open>Unfolding sets for evaluating the hook on the fixtures.\<close>

lemmas fixtures2 = escalate_constitution_def ctx_enterprise_800_def empty_rule_def
  empty_rule_constitution_def

lemmas fixtures = test_constitution_def ctx_standard_def ctx_enterprise_def refund_500_def
  refund_50_def no_str_float_def mock_fn_def

lemmas evals = rule_eval_def rule_logs_def evaluate_condition_def session_of_def tier_of_def
  load_constitution_def intent_constitution_hook_def invoke_def block_msg_def escalation_msg_def
  float_of_small_int

lemma invocations_append: "invocations (xs @ ys) = invocations xs @ invocations ys"
  by (induction xs rule: invocations.induct) auto

lemma invocations_condition: "invocations (snd (evaluate_condition sf c s a t)) = []"
  by (simp add: evaluate_condition_def Let_def split: option.splits sum.splits exn.splits)

lemma invocations_rule_logs: "invocations (rule_logs sf s a r) = []"
  by (simp add: rule_logs_def invocations_condition)

lemma invocations_skipped: "invocations (concat (map (rule_logs sf s a) pre)) = []"
  by (induction pre) (simp_all add: invocations_append invocations_rule_logs)

lemma condition_pair:
  "evaluate_condition sf (dict_get (condition r) ''any'') s a (threshold r) =
     (rule_eval sf s a r, rule_logs sf s a r)"
  by (simp add: rule_eval_def rule_logs_def)

lemma run_rules_unmatched:
  assumes "rule_eval sf s a r = Inr False"
  shows "run_rules sf n s tier a (r # rs) =
     (fst (run_rules sf n s tier a rs), rule_logs sf s a r @ snd (run_rules sf n s tier a rs))"
  using assms by (simp add: condition_pair split: prod.splits)

lemma run_rules_matched:
  assumes "rule_eval sf s a r = Inr True"
  shows "run_rules sf n s tier a (r # rs) =
     (if dict_get (action r) ''approve'' = ''reject'' \<and> tier \<noteq> PStr ''enterprise'' then
        (Inl (ValueError (block_msg n (dict_get (reason r) []))),
         rule_logs sf s a r @
         [Log INFO reject_fmt [AStr n, AStr (dict_get (reason r) []), AVal tier]])
      else if dict_get (action r) ''approve'' = ''escalate'' then
        (Inl (ValueError (escalation_msg n (dict_get (reason r) []))),
         rule_logs sf s a r @
         [Log WARNING escalate_fmt [AStr n, AStr (dict_get (reason r) []), AVal tier]])
      else if dict_get (action r) ''approve'' = ''approve'' then
        (Inr (),
         rule_logs sf s a r @
         [Log INFO approve_fmt [AStr n, AStr (dict_get (reason r) [])]])
      else (fst (run_rules sf n s tier a rs), rule_logs sf s a r @ snd (run_rules sf n s tier a rs)))"
  using assms by (simp add: condition_pair Let_def split: prod.splits)

lemma run_rules_skip:
  "\<forall>p \<in> set pre. rule_eval sf s a p = Inr False \<Longrightarrow>
   run_rules sf n s tier a (pre @ rest) =
     (fst (run_rules sf n s tier a rest),
      concat (map (rule_logs sf s a) pre) @ snd (run_rules sf n s tier a rest))"
proof (induction pre)
  case Nil
  then show ?case by simp
next
  case (Cons p pre)
  then show ?case
    by (simp add: run_rules_unmatched del: run_rules.simps)
qed

lemma invocations_run_rules: "invocations (snd (run_rules sf n s tier a rs)) = []"
proof (induction rs)
  case Nil
  then show ?case by simp
next
  case (Cons r rs)
  show ?case
  proof (cases "rule_eval sf s a r")
    case (Inl e)
    then show ?thesis
      by (simp add: condition_pair invocations_rule_logs)
  next
    case (Inr b)
    show ?thesis
    proof (cases b)
      case True
      with Inr have "rule_eval sf s a r = Inr True" by simp
      then show ?thesis using Cons
        by (simp add: run_rules_matched invocations_append invocations_rule_logs
              del: run_rules.simps)
    next
      case False
      with Inr have "rule_eval sf s a r = Inr False" by simp
      then show ?thesis using Cons
        by (simp add: run_rules_unmatched invocations_append invocations_rule_logs
              del: run_rules.simps)
    qed
  qed
qed

lemma hook_loaded:
  assumes "load_constitution doc = Inr c"
  shows "intent_constitution_hook sf doc ctx n fc a =
     (case fst (run_rules sf n (session_of ctx) (tier_of ctx) a (dict_get (c n) [])) of
        Inl e \<Rightarrow> (Inl e, snd (run_rules sf n (session_of ctx) (tier_of ctx) a (dict_get (c n) [])))
      | Inr u \<Rightarrow> (fst (fc a),
                  snd (run_rules sf n (session_of ctx) (tier_of ctx) a (dict_get (c n) [])) @ snd (fc a)))"
  using assms
  by (simp add: intent_constitution_hook_def session_of_def tier_of_def Let_def
        split: prod.splits sum.splits)

lemma hook_blocked:
  assumes "load_constitution doc = Inr c"
      and "fst (run_rules sf n (session_of ctx) (tier_of ctx) a (dict_get (c n) [])) = Inl e"
  shows "fst (intent_constitution_hook sf doc ctx n fc a) = Inl e"
    and "invocations (snd (intent_constitution_hook sf doc ctx n fc a)) = []"
  using assms by (simp_all add: hook_loaded invocations_run_rules)

lemma hook_passed:
  assumes "load_constitution doc = Inr c"
      and "fst (run_rules sf n (session_of ctx) (tier_of ctx) a (dict_get (c n) [])) = Inr ()"
  shows "fst (intent_constitution_hook sf doc ctx n (invoke f) a) = f a"
    and "invocations (snd (intent_constitution_hook sf doc ctx n (invoke f) a)) = [a]"
  using assms by (simp_all add: hook_loaded invocations_run_rules invocations_append invoke_def)

section \<open>Blocking decisions\<close>

text \<open>
  C3. Whenever the first rule whose condition holds is a \<^verbatim>\<open>reject\<close> or an \<^verbatim>\<open>escalate\<close> rule and
  the caller's tier is not \<^verbatim>\<open>enterprise\<close>, the constitution hook raises a \<^verbatim>\<open>ValueError\<close>
  whose message ends with the rule's \<^verbatim>\<open>reason\<close>, and the governed action is not run.
\<close>

theorem reject_or_escalate_blocks:
  assumes "load_constitution doc = Inr c"
      and "c function_name = Some (pre @ r # post)"
      and "\<forall>p \<in> set pre. rule_eval sf (session_of ctx) arguments p = Inr False"
      and "rule_eval sf (session_of ctx) arguments r = Inr True"
      and "action r = Some ''reject'' \<or> action r = Some ''escalate''"
      and "tier_of ctx \<noteq> PStr ''enterprise''"
  shows "\<exists>msg. fst (intent_constitution_hook sf doc ctx function_name (invoke f) arguments)
                  = Inl (ValueError msg)
             \<and> msg = (if action r = Some ''reject''
                      then block_msg function_name (dict_get (reason r) [])
                      else escalation_msg function_name (dict_get (reason r) []))
             \<and> (\<exists>prefix. msg = prefix @ dict_get (reason r) [])
             \<and> invocations (snd (intent_constitution_hook sf doc ctx function_name (invoke f) arguments)) = []"
proof -
  let ?rsn = "dict_get (reason r) []"
  let ?msg = "if action r = Some ''reject'' then block_msg function_name ?rsn
              else escalation_msg function_name ?rsn"
  let ?run = "run_rules sf function_name (session_of ctx) (tier_of ctx) arguments"
  have "fst (?run (r # post)) = Inl (ValueError ?msg)"
    using assms(4,5,6) by (auto simp: run_rules_matched simp del: run_rules.simps)
  then have "fst (?run (dict_get (c function_name) [])) = Inl (ValueError ?msg)"
    using assms(2,3) by (simp add: run_rules_skip del: run_rules.simps)
  from hook_blocked [OF assms(1) this, where fc = "invoke f"]
  have res: "fst (intent_constitution_hook sf doc ctx function_name (invoke f) arguments)
               = Inl (ValueError ?msg)"
    and inv: "invocations (snd (intent_constitution_hook sf doc ctx function_name (invoke f) arguments)) = []"
    by simp_all
  have "\<exists>prefix. ?msg = prefix @ ?rsn"
    by (auto simp: block_msg_def escalation_msg_def)
  with res inv show ?thesis by blast
qed

theorem reject_or_escalate_blocks_witness:
  "load_constitution (Inr (Some test_constitution)) = Inr test_constitution
   \<and> test_constitution ''stripe_refund''
       = Some ([] @ hd (the (test_constitution ''stripe_refund''))
                 # tl (the (test_constitution ''stripe_refund'')))
   \<and> rule_eval no_str_float (session_of ctx_standard) refund_500
         (hd (the (test_constitution ''stripe_refund''))) = Inr True
   \<and> action (hd (the (test_constitution ''stripe_refund''))) = Some ''reject''
   \<and> tier_of ctx_standard \<noteq> PStr ''enterprise''
   \<and> fst (intent_constitution_hook no_str_float (Inr (Some test_constitution)) ctx_standard
            ''stripe_refund'' (invoke mock_fn) refund_500)
       = Inl (ValueError
           ''[Intent Block] stripe_refund denied: Only enterprise accounts can auto-refund >= $100.'')
   \<and> invocations (snd (intent_constitution_hook no_str_float (Inr (Some test_constitution))
            ctx_standard ''stripe_refund'' (invoke mock_fn) refund_500)) = []
   \<and> rule_eval no_str_float (session_of session_state_main) [(''customer_id'', PStr ''C-1'')]
         (hd (the (escalate_constitution ''cancel_subscription''))) = Inr True
   \<and> action (hd (the (escalate_constitution ''cancel_subscription''))) = Some ''escalate''
   \<and> tier_of session_state_main \<noteq> PStr ''enterprise''
   \<and> fst (intent_constitution_hook no_str_float (Inr (Some escalate_constitution))
            session_state_main ''cancel_subscription'' (invoke mock_fn) [(''customer_id'', PStr ''C-1'')])
       = Inl (ValueError
           ''[Intent Escalation] cancel_subscription requires human review: Long-tenure cancellation needs review.'')
   \<and> invocations (snd (intent_constitution_hook no_str_float (Inr (Some escalate_constitution))
            session_state_main ''cancel_subscription'' (invoke mock_fn) [(''customer_id'', PStr ''C-1'')]))
       = []"
proof -
  let ?r = "hd (the (test_constitution ''stripe_refund''))"
  let ?post = "tl (the (test_constitution ''stripe_refund''))"
  have h1: "load_constitution (Inr (Some test_constitution)) = Inr test_constitution"
    by (simp add: load_constitution_def)
  have h2: "test_constitution ''stripe_refund'' = Some ([] @ ?r # ?post)"
    by (simp add: test_constitution_def)
  have h3: "\<forall>p \<in> set []. rule_eval no_str_float (session_of ctx_standard) refund_500 p = Inr False"
    by simp
  have h4: "rule_eval no_str_float (session_of ctx_standard) refund_500 ?r = Inr True"
    by (simp add: fixtures evals)
  have h5: "action ?r = Some ''reject'' \<or> action ?r = Some ''escalate''"
    by (simp add: test_constitution_def)
  have h6: "tier_of ctx_standard \<noteq> PStr ''enterprise''"
    by (simp add: fixtures evals)
  have r: "action ?r = Some ''reject''"
          "dict_get (reason ?r) [] = ''Only enterprise accounts can auto-refund >= $100.''"
    by (simp_all add: test_constitution_def)
  let ?args = "[(''customer_id'', PStr ''C-1'')]"
  let ?e = "hd (the (escalate_constitution ''cancel_subscription''))"
  have k1: "load_constitution (Inr (Some escalate_constitution)) = Inr escalate_constitution"
    by (simp add: load_constitution_def)
  have k2: "escalate_constitution ''cancel_subscription'' = Some ([] @ ?e # [])"
    by (simp add: escalate_constitution_def)
  have k3: "\<forall>p \<in> set []. rule_eval no_str_float (session_of session_state_main) ?args p = Inr False"
    by simp
  have k4: "rule_eval no_str_float (session_of session_state_main) ?args ?e = Inr True"
    by (simp add: session_state_main_def fixtures fixtures2 evals)
  have k5: "action ?e = Some ''reject'' \<or> action ?e = Some ''escalate''"
    by (simp add: escalate_constitution_def)
  have k6: "tier_of session_state_main \<noteq> PStr ''enterprise''"
    by (simp add: session_state_main_def evals)
  have e: "action ?e = Some ''escalate''"
          "dict_get (reason ?e) [] = ''Long-tenure cancellation needs review.''"
    by (simp_all add: escalate_constitution_def)
  from reject_or_escalate_blocks [OF h1 h2 h3 h4 h5 h6, of mock_fn] r
  have a: "fst (intent_constitution_hook no_str_float (Inr (Some test_constitution)) ctx_standard
            ''stripe_refund'' (invoke mock_fn) refund_500)
       = Inl (ValueError
           ''[Intent Block] stripe_refund denied: Only enterprise accounts can auto-refund >= $100.'')
     \<and> invocations (snd (intent_constitution_hook no_str_float (Inr (Some test_constitution))
            ctx_standard ''stripe_refund'' (invoke mock_fn) refund_500)) = []"
    by (simp add: block_msg_def)
  from reject_or_escalate_blocks [OF k1 k2 k3 k4 k5 k6, of mock_fn] e
  have b: "fst (intent_constitution_hook no_str_float (Inr (Some escalate_constitution))
            session_state_main ''cancel_subscription'' (invoke mock_fn) ?args)
       = Inl (ValueError
           ''[Intent Escalation] cancel_subscription requires human review: Long-tenure cancellation needs review.'')
     \<and> invocations (snd (intent_constitution_hook no_str_float (Inr (Some escalate_constitution))
            session_state_main ''cancel_subscription'' (invoke mock_fn) ?args)) = []"
    by (simp add: escalation_msg_def)
  from a b h1 h2 h4 h6 r k4 k6 e show ?thesis by simp
qed

lemma run_rules_all_unmatched:
  assumes "\<forall>r \<in> set rs. rule_eval sf s a r = Inr False"
  shows "fst (run_rules sf n s tier a rs) = Inr ()"
  using run_rules_skip [OF assms, of n tier "[]"] by simp

section \<open>Fail-open default\<close>

text \<open>
  C4. For an action name that the loaded constitution does not list, and whenever none of
  its rules' conditions holds, the constitution hook runs the governed action exactly once,
  with the caller's arguments, and returns its outcome unchanged.
\<close>

theorem fail_open_default:
  assumes "load_constitution doc = Inr c"
      and "c function_name = None
           \<or> (\<forall>r \<in> set (dict_get (c function_name) []).
                 rule_eval sf (session_of ctx) arguments r = Inr False)"
  shows "fst (intent_constitution_hook sf doc ctx function_name (invoke f) arguments) = f arguments
       \<and> invocations (snd (intent_constitution_hook sf doc ctx function_name (invoke f) arguments))
           = [arguments]"
proof -
  from assms(2)
  have "\<forall>r \<in> set (dict_get (c function_name) []).
          rule_eval sf (session_of ctx) arguments r = Inr False"
    by auto
  then have "fst (run_rules sf function_name (session_of ctx) (tier_of ctx) arguments
                    (dict_get (c function_name) [])) = Inr ()"
    by (rule run_rules_all_unmatched)
  from hook_passed [OF assms(1) this, where f = f] show ?thesis by simp
qed

theorem fail_open_default_witness:
  "test_constitution ''unknown_tool'' = None
   \<and> fst (intent_constitution_hook no_str_float (Inr (Some test_constitution)) ctx_standard
            ''unknown_tool'' (invoke mock_fn) []) = Inr ''ok''
   \<and> invocations (snd (intent_constitution_hook no_str_float (Inr (Some test_constitution))
            ctx_standard ''unknown_tool'' (invoke mock_fn) [])) = [[]]
   \<and> unmatched_constitution ''stripe_refund'' \<noteq> None
   \<and> rule_eval no_str_float (session_of ctx_standard) refund_50
         (hd (the (unmatched_constitution ''stripe_refund''))) = Inr False
   \<and> rule_eval no_str_float (session_of ctx_standard) refund_50
         (hd (tl (the (unmatched_constitution ''stripe_refund'')))) = Inr False
   \<and> length (the (unmatched_constitution ''stripe_refund'')) = 2
   \<and> fst (intent_constitution_hook no_str_float (Inr (Some unmatched_constitution)) ctx_standard
            ''stripe_refund'' (invoke mock_fn) refund_50) = Inr ''ok''
   \<and> invocations (snd (intent_constitution_hook no_str_float (Inr (Some unmatched_constitution))
            ctx_standard ''stripe_refund'' (invoke mock_fn) refund_50)) = [refund_50]"
proof -
  have h1: "load_constitution (Inr (Some test_constitution)) = Inr test_constitution"
    by (simp add: load_constitution_def)
  have h2: "test_constitution ''unknown_tool'' = None"
    by (simp add: test_constitution_def)
  then have h2': "test_constitution ''unknown_tool'' = None
           \<or> (\<forall>r \<in> set (dict_get (test_constitution ''unknown_tool'') []).
                 rule_eval no_str_float (session_of ctx_standard) [] r = Inr False)"
    by simp
  have k1: "load_constitution (Inr (Some unmatched_constitution)) = Inr unmatched_constitution"
    by (simp add: load_constitution_def)
  have k2: "\<forall>r \<in> set (dict_get (unmatched_constitution ''stripe_refund'') []).
              rule_eval no_str_float (session_of ctx_standard) refund_50 r = Inr False"
    by (simp add: unmatched_constitution_def fixtures evals)
  then have k2': "unmatched_constitution ''stripe_refund'' = None
           \<or> (\<forall>r \<in> set (dict_get (unmatched_constitution ''stripe_refund'') []).
                 rule_eval no_str_float (session_of ctx_standard) refund_50 r = Inr False)"
    by simp
  have k3: "unmatched_constitution ''stripe_refund'' \<noteq> None"
    by (simp add: unmatched_constitution_def)
  have k4: "rule_eval no_str_float (session_of ctx_standard) refund_50
              (hd (the (unmatched_constitution ''stripe_refund''))) = Inr False"
           "rule_eval no_str_float (session_of ctx_standard) refund_50
              (hd (tl (the (unmatched_constitution ''stripe_refund'')))) = Inr False"
           "length (the (unmatched_constitution ''stripe_refund'')) = 2"
    by (simp_all add: unmatched_constitution_def fixtures evals)
  from fail_open_default [OF h1 h2', of mock_fn] fail_open_default [OF k1 k2', of mock_fn] h2 k3 k4
  show ?thesis by (simp add: mock_fn_def)
qed

section \<open>First approve wins\<close>

text \<open>
  C5. When the first rule whose condition holds is an \<^verbatim>\<open>approve\<close> rule, the loop stops there
  and the governed action runs exactly once, whatever the later rules of the list are, also
  when one of them would match with \<^verbatim>\<open>reject\<close> or \<^verbatim>\<open>escalate\<close>.
\<close>

theorem first_approve_wins:
  assumes "load_constitution doc = Inr c"
      and "c function_name = Some (pre @ r # post)"
      and "\<forall>p \<in> set pre. rule_eval sf (session_of ctx) arguments p = Inr False"
      and "rule_eval sf (session_of ctx) arguments r = Inr True"
      and "action r = Some ''approve''"
  shows "fst (intent_constitution_hook sf doc ctx function_name (invoke f) arguments) = f arguments
       \<and> invocations (snd (intent_constitution_hook sf doc ctx function_name (invoke f) arguments))
           = [arguments]"
proof -
  let ?run = "run_rules sf function_name (session_of ctx) (tier_of ctx) arguments"
  have "fst (?run (r # post)) = Inr ()"
    using assms(4,5) by (simp add: run_rules_matched del: run_rules.simps)
  then have "fst (?run (dict_get (c function_name) [])) = Inr ()"
    using assms(2,3) by (simp add: run_rules_skip del: run_rules.simps)
  from hook_passed [OF assms(1) this, where f = f] show ?thesis by simp
qed

theorem first_approve_wins_witness:
  "load_constitution (Inr (Some approve_first_constitution)) = Inr approve_first_constitution
   \<and> approve_first_constitution ''pay'' =
       Some ([] @ \<lparr>condition = Some ''any'', action = Some ''approve'',
                    reason = Some ''r1'', threshold = None\<rparr>
               # [\<lparr>condition = Some ''high_value'', action = Some ''reject'',
                    reason = Some ''r2'', threshold = Some 100\<rparr>])
   \<and> rule_eval no_str_float (session_of ctx_standard) refund_500
         \<lparr>condition = Some ''any'', action = Some ''approve'',
           reason = Some ''r1'', threshold = None\<rparr> = Inr True
   \<and> rule_eval no_str_float (session_of ctx_standard) refund_500
         \<lparr>condition = Some ''high_value'', action = Some ''reject'',
           reason = Some ''r2'', threshold = Some 100\<rparr> = Inr True
   \<and> fst (intent_constitution_hook no_str_float (Inr (Some approve_first_constitution))
            ctx_standard ''pay'' (invoke mock_fn) refund_500) = Inr ''ok''
   \<and> invocations (snd (intent_constitution_hook no_str_float (Inr (Some approve_first_constitution))
            ctx_standard ''pay'' (invoke mock_fn) refund_500)) = [refund_500]"
proof -
  let ?r = "\<lparr>condition = Some ''any'', action = Some ''approve'',
             reason = Some ''r1'', threshold = None\<rparr>"
  let ?q = "\<lparr>condition = Some ''high_value'', action = Some ''reject'',
             reason = Some ''r2'', threshold = Some 100\<rparr>"
  have h1: "load_constitution (Inr (Some approve_first_constitution)) = Inr approve_first_constitution"
    by (simp add: load_constitution_def)
  have h2: "approve_first_constitution ''pay'' = Some ([] @ ?r # [?q])"
    by (simp add: approve_first_constitution_def)
  have h3: "\<forall>p \<in> set []. rule_eval no_str_float (session_of ctx_standard) refund_500 p = Inr False"
    by simp
  have h4: "rule_eval no_str_float (session_of ctx_standard) refund_500 ?r = Inr True"
    by (simp add: fixtures evals)
  have h5: "action ?r = Some ''approve''"
    by simp
  have later: "rule_eval no_str_float (session_of ctx_standard) refund_500 ?q = Inr True"
    by (simp add: fixtures evals)
  from first_approve_wins [OF h1 h2 h3 h4 h5, of mock_fn] h1 h2 h4 later
  show ?thesis by (simp add: mock_fn_def)
qed

lemma run_rules_bypassed:
  assumes "rule_eval sf s a r = Inr True"
      and "action r = Some ''reject''"
  shows "run_rules sf n s (PStr ''enterprise'') a (r # rs) =
     (fst (run_rules sf n s (PStr ''enterprise'') a rs),
      rule_logs sf s a r @ snd (run_rules sf n s (PStr ''enterprise'') a rs))"
  using assms by (simp add: run_rules_matched del: run_rules.simps)

lemma run_rules_escalate:
  assumes "rule_eval sf s a r = Inr True"
      and "action r = Some ''escalate''"
  shows "fst (run_rules sf n s tier a (r # rs)) =
           Inl (ValueError (escalation_msg n (dict_get (reason r) [])))"
  using assms by (simp add: run_rules_matched del: run_rules.simps)

lemma run_rules_no_escalate:
  assumes "\<forall>q \<in> set rs. rule_eval sf s a q = Inr False
             \<or> (rule_eval sf s a q = Inr True \<and> action q \<noteq> Some ''escalate'')"
  shows "fst (run_rules sf n s (PStr ''enterprise'') a rs) = Inr ()"
  using assms
proof (induction rs)
  case Nil
  then show ?case by simp
next
  case (Cons q rs)
  then have ih: "fst (run_rules sf n s (PStr ''enterprise'') a rs) = Inr ()"
    by simp
  from Cons.prems
  consider "rule_eval sf s a q = Inr False"
    | "rule_eval sf s a q = Inr True" "action q \<noteq> Some ''escalate''"
    by auto
  then show ?case
  proof cases
    case 1
    then show ?thesis using ih
      by (simp add: run_rules_unmatched del: run_rules.simps)
  next
    case 2
    then have "dict_get (action q) ''approve'' \<noteq> ''escalate''"
      by (cases "action q") simp_all
    with 2 show ?thesis using ih
      by (simp add: run_rules_matched del: run_rules.simps)
  qed
qed

section \<open>The enterprise tier\<close>

text \<open>
  C1, as the code has it. For an \<^verbatim>\<open>enterprise\<close> caller whose first matching rule is a
  \<^verbatim>\<open>reject\<close> rule, the match does not block: the hook behaves as it does on the later rules
  alone, and the action runs exactly once when no later rule that matches is an
  \<^verbatim>\<open>escalate\<close> rule. A matching \<^verbatim>\<open>escalate\<close> rule blocks the enterprise caller like any other:
  the tier is tested on the \<^verbatim>\<open>reject\<close> branch only.
\<close>

theorem enterprise_bypasses_reject_only:
  assumes "load_constitution doc = Inr c"
      and "c function_name = Some (pre @ r # post)"
      and "\<forall>p \<in> set pre. rule_eval sf (session_of ctx) arguments p = Inr False"
      and "rule_eval sf (session_of ctx) arguments r = Inr True"
      and "tier_of ctx = PStr ''enterprise''"
  shows "(action r = Some ''reject'' \<longrightarrow>
            fst (intent_constitution_hook sf doc ctx function_name (invoke f) arguments)
              = fst (intent_constitution_hook sf (Inr (Some (c(function_name \<mapsto> post)))) ctx
                       function_name (invoke f) arguments)
          \<and> invocations (snd (intent_constitution_hook sf doc ctx function_name (invoke f) arguments))
              = invocations (snd (intent_constitution_hook sf (Inr (Some (c(function_name \<mapsto> post))))
                                    ctx function_name (invoke f) arguments)))
       \<and> (action r = Some ''reject''
            \<and> (\<forall>q \<in> set post. rule_eval sf (session_of ctx) arguments q = Inr False
                  \<or> (rule_eval sf (session_of ctx) arguments q = Inr True
                      \<and> action q \<noteq> Some ''escalate'')) \<longrightarrow>
            fst (intent_constitution_hook sf doc ctx function_name (invoke f) arguments) = f arguments
          \<and> invocations (snd (intent_constitution_hook sf doc ctx function_name (invoke f) arguments))
              = [arguments])
       \<and> (action r = Some ''escalate'' \<longrightarrow>
            fst (intent_constitution_hook sf doc ctx function_name (invoke f) arguments)
              = Inl (ValueError (escalation_msg function_name (dict_get (reason r) [])))
          \<and> invocations (snd (intent_constitution_hook sf doc ctx function_name (invoke f) arguments))
              = [])"
proof -
  let ?run = "run_rules sf function_name (session_of ctx) (PStr ''enterprise'') arguments"
  let ?hook = "intent_constitution_hook sf doc ctx function_name (invoke f) arguments"
  let ?c' = "c(function_name \<mapsto> post)"
  let ?hook' = "intent_constitution_hook sf (Inr (Some ?c')) ctx function_name (invoke f) arguments"
  have skip: "?run (dict_get (c function_name) []) =
                (fst (?run (r # post)),
                 concat (map (rule_logs sf (session_of ctx) arguments) pre) @ snd (?run (r # post)))"
    using assms(2,3) by (simp add: run_rules_skip del: run_rules.simps)
  have load': "load_constitution (Inr (Some ?c')) = Inr ?c'"
    by (simp add: load_constitution_def)
  have c1: "fst ?hook = fst ?hook' \<and> invocations (snd ?hook) = invocations (snd ?hook')"
    if rej: "action r = Some ''reject''"
  proof -
    have "fst (?run (dict_get (c function_name) [])) = fst (?run post)"
      using skip run_rules_bypassed [OF assms(4) rej] by (simp del: run_rules.simps)
    then show ?thesis
      using assms(5)
      by (simp add: hook_loaded [OF assms(1)] hook_loaded [OF load'] invocations_append
            invocations_run_rules invoke_def split: sum.splits)
  qed
  have c2: "fst ?hook = f arguments \<and> invocations (snd ?hook) = [arguments]"
    if rej: "action r = Some ''reject''"
      and later: "\<forall>q \<in> set post. rule_eval sf (session_of ctx) arguments q = Inr False
                  \<or> (rule_eval sf (session_of ctx) arguments q = Inr True
                      \<and> action q \<noteq> Some ''escalate'')"
  proof -
    have "fst (?run post) = Inr ()"
      using later by (rule run_rules_no_escalate)
    then have "fst (?run (dict_get (c function_name) [])) = Inr ()"
      using skip run_rules_bypassed [OF assms(4) rej] by (simp del: run_rules.simps)
    then have "fst (run_rules sf function_name (session_of ctx) (tier_of ctx) arguments
                      (dict_get (c function_name) [])) = Inr ()"
      using assms(5) by simp
    from hook_passed [OF assms(1) this, where f = f] show ?thesis by simp
  qed
  have c3: "fst ?hook = Inl (ValueError (escalation_msg function_name (dict_get (reason r) [])))
            \<and> invocations (snd ?hook) = []"
    if esc: "action r = Some ''escalate''"
  proof -
    have "fst (?run (dict_get (c function_name) []))
            = Inl (ValueError (escalation_msg function_name (dict_get (reason r) [])))"
      using skip run_rules_escalate [OF assms(4) esc] by (simp del: run_rules.simps)
    then have "fst (run_rules sf function_name (session_of ctx) (tier_of ctx) arguments
                      (dict_get (c function_name) []))
                 = Inl (ValueError (escalation_msg function_name (dict_get (reason r) [])))"
      using assms(5) by simp
    from hook_blocked [OF assms(1) this, where fc = "invoke f"] show ?thesis by simp
  qed
  from c1 c2 c3 show ?thesis by blast
qed

theorem enterprise_bypasses_reject_only_witness:
  "tier_of ctx_enterprise = PStr ''enterprise''
   \<and> rule_eval no_str_float (session_of ctx_enterprise) refund_500
         (hd (the (test_constitution ''stripe_refund''))) = Inr True
   \<and> action (hd (the (test_constitution ''stripe_refund''))) = Some ''reject''
   \<and> fst (intent_constitution_hook no_str_float (Inr (Some test_constitution)) ctx_enterprise
            ''stripe_refund'' (invoke mock_fn) refund_500) = Inr ''ok''
   \<and> invocations (snd (intent_constitution_hook no_str_float (Inr (Some test_constitution))
            ctx_enterprise ''stripe_refund'' (invoke mock_fn) refund_500)) = [refund_500]
   \<and> tier_of ctx_enterprise_800 = PStr ''enterprise''
   \<and> rule_eval no_str_float (session_of ctx_enterprise_800) [(''customer_id'', PStr ''C-1'')]
         (hd (the (escalate_constitution ''cancel_subscription''))) = Inr True
   \<and> action (hd (the (escalate_constitution ''cancel_subscription''))) = Some ''escalate''
   \<and> fst (intent_constitution_hook no_str_float (Inr (Some escalate_constitution))
            ctx_enterprise_800 ''cancel_subscription'' (invoke mock_fn) [(''customer_id'', PStr ''C-1'')])
       = Inl (ValueError (escalation_msg ''cancel_subscription'' ''Long-tenure cancellation needs review.''))"
proof -
  let ?r = "hd (the (test_constitution ''stripe_refund''))"
  let ?post = "tl (the (test_constitution ''stripe_refund''))"
  have h1: "load_constitution (Inr (Some test_constitution)) = Inr test_constitution"
    by (simp add: load_constitution_def)
  have h2: "test_constitution ''stripe_refund'' = Some ([] @ ?r # ?post)"
    by (simp add: test_constitution_def)
  have h3: "\<forall>p \<in> set []. rule_eval no_str_float (session_of ctx_enterprise) refund_500 p = Inr False"
    by simp
  have h4: "rule_eval no_str_float (session_of ctx_enterprise) refund_500 ?r = Inr True"
    by (simp add: fixtures evals)
  have h5: "tier_of ctx_enterprise = PStr ''enterprise''"
    by (simp add: fixtures evals)
  have h6: "action ?r = Some ''reject''"
    by (simp add: test_constitution_def)
  have h7: "\<forall>q \<in> set ?post. rule_eval no_str_float (session_of ctx_enterprise) refund_500 q = Inr False
              \<or> (rule_eval no_str_float (session_of ctx_enterprise) refund_500 q = Inr True
                  \<and> action q \<noteq> Some ''escalate'')"
    by (simp add: fixtures evals)
  let ?args = "[(''customer_id'', PStr ''C-1'')]"
  let ?e = "hd (the (escalate_constitution ''cancel_subscription''))"
  have k1: "load_constitution (Inr (Some escalate_constitution)) = Inr escalate_constitution"
    by (simp add: load_constitution_def)
  have k2: "escalate_constitution ''cancel_subscription'' = Some ([] @ ?e # [])"
    by (simp add: escalate_constitution_def)
  have k3: "\<forall>p \<in> set []. rule_eval no_str_float (session_of ctx_enterprise_800) ?args p = Inr False"
    by simp
  have k4: "rule_eval no_str_float (session_of ctx_enterprise_800) ?args ?e = Inr True"
    by (simp add: fixtures fixtures2 evals)
  have k5: "tier_of ctx_enterprise_800 = PStr ''enterprise''"
    by (simp add: fixtures2 evals)
  have k6: "action ?e = Some ''escalate''" "dict_get (reason ?e) [] = ''Long-tenure cancellation needs review.''"
    by (simp_all add: escalate_constitution_def)
  from enterprise_bypasses_reject_only [OF h1 h2 h3 h4 h5, of mock_fn] h6 h7
  have a: "fst (intent_constitution_hook no_str_float (Inr (Some test_constitution)) ctx_enterprise
              ''stripe_refund'' (invoke mock_fn) refund_500) = mock_fn refund_500
         \<and> invocations (snd (intent_constitution_hook no_str_float (Inr (Some test_constitution))
              ctx_enterprise ''stripe_refund'' (invoke mock_fn) refund_500)) = [refund_500]"
    by blast
  from enterprise_bypasses_reject_only [OF k1 k2 k3 k4 k5, of mock_fn] k6
  have b: "fst (intent_constitution_hook no_str_float (Inr (Some escalate_constitution))
              ctx_enterprise_800 ''cancel_subscription'' (invoke mock_fn) ?args)
         = Inl (ValueError (escalation_msg ''cancel_subscription'' ''Long-tenure cancellation needs review.''))"
    by simp
  from a b h4 h5 h6 k4 k5 k6 show ?thesis by (simp add: mock_fn_def)
qed

text \<open>
  Counterexample to C1 as stated: an enterprise caller with 800 days of tenure, whose first matching
  rule is an \<^verbatim>\<open>escalate\<close> rule, is blocked and the action does not run.
\<close>

theorem enterprise_escalate_counterexample:
  "tier_of ctx_enterprise_800 = PStr ''enterprise''
   \<and> rule_eval no_str_float (session_of ctx_enterprise_800) [(''customer_id'', PStr ''C-1'')]
         \<lparr>condition = Some ''high_tenure'', action = Some ''escalate'',
           reason = Some ''Long-tenure cancellation needs review.'', threshold = None\<rparr> = Inr True
   \<and> escalate_constitution ''cancel_subscription'' =
         Some [\<lparr>condition = Some ''high_tenure'', action = Some ''escalate'',
                 reason = Some ''Long-tenure cancellation needs review.'', threshold = None\<rparr>]
   \<and> fst (intent_constitution_hook no_str_float (Inr (Some escalate_constitution))
            ctx_enterprise_800 ''cancel_subscription'' (invoke mock_fn) [(''customer_id'', PStr ''C-1'')])
       = Inl (ValueError
           ''[Intent Escalation] cancel_subscription requires human review: Long-tenure cancellation needs review.'')
   \<and> invocations (snd (intent_constitution_hook no_str_float (Inr (Some escalate_constitution))
            ctx_enterprise_800 ''cancel_subscription'' (invoke mock_fn) [(''customer_id'', PStr ''C-1'')]))
       = []"
  by (simp add: fixtures fixtures2 evals Let_def)

section \<open>Missing rule fields\<close>

text \<open>
  C10. A rule without a \<^verbatim>\<open>condition\<close> key is evaluated as \<^verbatim>\<open>any\<close> and matches; a rule without
  an \<^verbatim>\<open>action\<close> key behaves as an \<^verbatim>\<open>approve\<close> rule; so a rule lacking both, the empty rule
  in particular, ends the loop when it is reached and the action runs exactly once.
\<close>

theorem missing_rule_fields_default_open:
  "(condition r = None \<longrightarrow>
      rule_eval sf s arguments r = Inr True
    \<and> rule_eval sf s arguments r = rule_eval sf s arguments (r\<lparr>condition := Some ''any''\<rparr>))
   \<and> (action r = None \<longrightarrow>
      run_rules sf function_name s tier arguments (r # rs)
        = run_rules sf function_name s tier arguments (r\<lparr>action := Some ''approve''\<rparr> # rs))
   \<and> (load_constitution doc = Inr c
      \<and> c function_name = Some (pre @ r # post)
      \<and> (\<forall>p \<in> set pre. rule_eval sf (session_of ctx) arguments p = Inr False)
      \<and> condition r = None \<and> action r = None \<longrightarrow>
      fst (intent_constitution_hook sf doc ctx function_name (invoke f) arguments) = f arguments
    \<and> invocations (snd (intent_constitution_hook sf doc ctx function_name (invoke f) arguments))
        = [arguments])"
proof -
  have any: "rule_eval sf s' arguments r = Inr True" if "condition r = None" for s'
    using that by (simp add: rule_eval_def evaluate_condition_def)
  have c1: "rule_eval sf s arguments r = rule_eval sf s arguments (r\<lparr>condition := Some ''any''\<rparr>)"
    if "condition r = None"
    using that by (simp add: rule_eval_def)
  have c2: "run_rules sf function_name s tier arguments (r # rs)
        = run_rules sf function_name s tier arguments (r\<lparr>action := Some ''approve''\<rparr> # rs)"
    if "action r = None"
    using that by simp
  have c3: "fst (intent_constitution_hook sf doc ctx function_name (invoke f) arguments) = f arguments
    \<and> invocations (snd (intent_constitution_hook sf doc ctx function_name (invoke f) arguments))
        = [arguments]"
    if load: "load_constitution doc = Inr c"
      and rules: "c function_name = Some (pre @ r # post)"
      and pre: "\<forall>p \<in> set pre. rule_eval sf (session_of ctx) arguments p = Inr False"
      and nc: "condition r = None" and na: "action r = None"
  proof -
    let ?run = "run_rules sf function_name (session_of ctx) (tier_of ctx) arguments"
    have "fst (?run (r # post)) = Inr ()"
      using any [OF nc, of "session_of ctx"] na
      by (simp add: run_rules_matched del: run_rules.simps)
    then have "fst (?run (dict_get (c function_name) [])) = Inr ()"
      using rules pre by (simp add: run_rules_skip del: run_rules.simps)
    from hook_passed [OF load this, where f = f] show ?thesis by simp
  qed
  from any c1 c2 c3 show ?thesis by blast
qed

theorem missing_rule_fields_default_open_witness:
  "condition empty_rule = None \<and> action empty_rule = None
   \<and> rule_eval no_str_float (session_of ctx_standard) refund_500 empty_rule = Inr True
   \<and> empty_rule_constitution ''send_email'' =
        Some ([] @ empty_rule # [\<lparr>condition = Some ''any'', action = Some ''reject'',
                                    reason = Some ''never reached'', threshold = None\<rparr>])
   \<and> fst (intent_constitution_hook no_str_float (Inr (Some empty_rule_constitution)) ctx_standard
            ''send_email'' (invoke mock_fn) refund_500) = Inr ''ok''
   \<and> invocations (snd (intent_constitution_hook no_str_float (Inr (Some empty_rule_constitution))
            ctx_standard ''send_email'' (invoke mock_fn) refund_500)) = [refund_500]"
proof -
  let ?q = "\<lparr>condition = Some ''any'', action = Some ''reject'',
             reason = Some ''never reached'', threshold = None\<rparr>"
  have h0: "condition empty_rule = None" "action empty_rule = None"
    by (simp_all add: empty_rule_def)
  have h1: "load_constitution (Inr (Some empty_rule_constitution)) = Inr empty_rule_constitution"
    by (simp add: load_constitution_def)
  have h2: "empty_rule_constitution ''send_email'' = Some ([] @ empty_rule # [?q])"
    by (simp add: empty_rule_constitution_def)
  have h3: "\<forall>p \<in> set []. rule_eval no_str_float (session_of ctx_standard) refund_500 p = Inr False"
    by simp
  from missing_rule_fields_default_open
         [of empty_rule no_str_float "session_of ctx_standard" refund_500 "''send_email''"
             "tier_of ctx_standard" "[?q]" "Inr (Some empty_rule_constitution)"
             empty_rule_constitution "[]" "[?q]" ctx_standard mock_fn]
       h0 h1 h2 h3
  show ?thesis by (simp add: mock_fn_def)
qed

lemma logger_hook_raises:
  assumes "fst (function_call arguments) = Inl e"
  shows "logger_hook clock function_name function_call arguments =
           (Inl e, audit_start function_name (sanitise arguments) # snd (function_call arguments))"
  using assms by (cases "function_call arguments") (simp add: logger_hook_def Let_def)

lemma logger_hook_returns:
  assumes "fst (function_call arguments) = Inr result"
  shows "logger_hook clock function_name function_call arguments =
           (Inr result,
            audit_start function_name (sanitise arguments) # snd (function_call arguments)
              @ [audit_end function_name (snd clock - fst clock)])"
  using assms by (cases "function_call arguments") (simp add: logger_hook_def Let_def)

lemma sanitise_keys: "map fst (sanitise arguments) = map fst arguments"
  by (induction arguments) (auto simp: sanitise_def)

lemma sanitise_nth:
  assumes "i < length arguments"
  shows "sanitise arguments ! i =
           (fst (arguments ! i),
            if fst (arguments ! i) \<in> {''password'', ''token'', ''secret''} then PStr ''***''
            else snd (arguments ! i))"
  using assms by (simp add: sanitise_def split: prod.splits)

section \<open>The audit logger: a call that raises\<close>

text \<open>
  C2, as the code has it. When the wrapped callable raises, the exception reaches the
  caller unchanged, the start record has been emitted before the call, and the hook emits
  nothing after it: the logger has no \<^verbatim>\<open>try\<close>, so no end record is written.
\<close>

theorem raising_call_leaves_no_end_record:
  assumes "fst (function_call arguments) = Inl e"
  shows "logger_hook clock function_name function_call arguments =
           (Inl e, audit_start function_name (sanitise arguments) # snd (function_call arguments))
       \<and> filter is_audit_end (snd (logger_hook clock function_name function_call arguments))
           = filter is_audit_end (snd (function_call arguments))"
  using logger_hook_raises [where function_call = function_call and arguments = arguments, OF assms]
  by (simp add: audit_start_def)

theorem raising_call_leaves_no_end_record_witness:
  "fst (invoke failing_fn refund_500) = Inl (Exception ''Stripe is unreachable'')
   \<and> logger_hook (0, 1 / 2) ''stripe_refund'' (invoke failing_fn) refund_500 =
       (Inl (Exception ''Stripe is unreachable''),
        [audit_start ''stripe_refund'' refund_500, Invoke refund_500])
   \<and> filter is_audit_end (snd (logger_hook (0, 1 / 2) ''stripe_refund'' (invoke failing_fn) refund_500))
       = []"
proof -
  have h: "fst (invoke failing_fn refund_500) = Inl (Exception ''Stripe is unreachable'')"
    by (simp add: invoke_def failing_fn_def)
  have s: "sanitise refund_500 = refund_500"
    by (simp add: sanitise_def refund_500_def)
  from raising_call_leaves_no_end_record
         [where function_call = "invoke failing_fn" and arguments = refund_500
            and clock = "(0, 1 / 2)" and function_name = "''stripe_refund''", OF h] h s
  show ?thesis by (simp add: invoke_def audit_start_def)
qed

text \<open>
  Counterexample to C2 as stated: a refund whose action raises leaves the start record and the run of
  the action in the trace, and no end record.
\<close>

theorem end_record_skipped_counterexample:
  "fst (invoke failing_fn refund_500) = Inl (Exception ''Stripe is unreachable'')
   \<and> snd (logger_hook (0, 1 / 2) ''stripe_refund'' (invoke failing_fn) refund_500) =
        [Log INFO ''[AUDIT START] %s | args=%s''
           [AStr ''stripe_refund'', AJson [(''customer_id'', PStr ''C-1''), (''amount'', PInt 500)]],
         Invoke refund_500]
   \<and> filter is_audit_end (snd (logger_hook (0, 1 / 2) ''stripe_refund'' (invoke failing_fn) refund_500))
        = []"
  by (simp add: logger_hook_def invoke_def failing_fn_def sanitise_def refund_500_def
        audit_start_def Let_def)

section \<open>The audit logger: a call that returns\<close>

text \<open>
  C7, as the code has it. A successful call leaves exactly one start record before and one
  end record after the callable's own trace. The start record carries the arguments with
  the values of \<^verbatim>\<open>password\<close>, \<^verbatim>\<open>token\<close> and \<^verbatim>\<open>secret\<close> replaced by \<^verbatim>\<open>***\<close> and every other key
  and value as given, in order. The end record carries the function name and the elapsed
  time only.
\<close>

theorem audit_records_of_successful_call:
  assumes "fst (function_call arguments) = Inr result"
  shows "logger_hook clock function_name function_call arguments =
           (Inr result,
            [audit_start function_name (sanitise arguments)] @ snd (function_call arguments)
              @ [audit_end function_name (snd clock - fst clock)])
       \<and> log_args (audit_start function_name (sanitise arguments))
           = [AStr function_name, AJson (sanitise arguments)]
       \<and> map fst (sanitise arguments) = map fst arguments
       \<and> (\<forall>i < length arguments.
             snd (sanitise arguments ! i) =
               (if fst (arguments ! i) \<in> {''password'', ''token'', ''secret''} then PStr ''***''
                else snd (arguments ! i)))
       \<and> log_args (audit_end function_name (snd clock - fst clock))
           = [AStr function_name, ANum (snd clock - fst clock)]"
  using logger_hook_returns [where function_call = function_call and arguments = arguments, OF assms]
  by (simp add: sanitise_keys sanitise_nth audit_start_def audit_end_def)

theorem audit_records_of_successful_call_witness:
  "fst (invoke mock_fn login_args) = Inr ''ok''
   \<and> logger_hook (0, 1 / 2) ''login'' (invoke mock_fn) login_args =
       (Inr ''ok'',
        [Log INFO ''[AUDIT START] %s | args=%s''
           [AStr ''login'', AJson [(''user'', PStr ''bob''), (''password'', PStr ''***'')]],
         Invoke login_args,
         Log INFO ''[AUDIT END]   %s | %.3fs'' [AStr ''login'', ANum (1 / 2)]])"
proof -
  have h: "fst (invoke mock_fn login_args) = Inr ''ok''"
    by (simp add: invoke_def mock_fn_def)
  have s: "sanitise login_args = [(''user'', PStr ''bob''), (''password'', PStr ''***'')]"
    by (simp add: sanitise_def login_args_def)
  from audit_records_of_successful_call
         [where function_call = "invoke mock_fn" and arguments = login_args
            and clock = "(0, 1 / 2)" and function_name = "''login''", OF h] h s
  show ?thesis by (simp add: invoke_def audit_start_def audit_end_def)
qed

text \<open>
  Counterexample to C7 as stated, on the end record: it shows no argument at all, redacted or not; the
  sanitised arguments are in the start record only.
\<close>

theorem end_record_has_no_arguments_counterexample:
  "fst (logger_hook (0, 1 / 2) ''login'' (invoke mock_fn) login_args) = Inr ''ok''
   \<and> last (snd (logger_hook (0, 1 / 2) ''login'' (invoke mock_fn) login_args))
       = Log INFO ''[AUDIT END]   %s | %.3fs'' [AStr ''login'', ANum (1 / 2)]
   \<and> AJson (sanitise login_args)
       \<notin> set (log_args (last (snd (logger_hook (0, 1 / 2) ''login'' (invoke mock_fn) login_args))))
   \<and> AJson (sanitise login_args)
       \<in> set (log_args (hd (snd (logger_hook (0, 1 / 2) ''login'' (invoke mock_fn) login_args))))"
  by (simp add: logger_hook_def invoke_def mock_fn_def sanitise_def login_args_def
        audit_start_def audit_end_def Let_def)

lemma or_default_present: "thr \<noteq> Some 0 \<Longrightarrow> or_default thr d = (case thr of None \<Rightarrow> d | Some t \<Rightarrow> t)"
  by (cases thr) simp_all

section \<open>The condition evaluator against its specification\<close>

text \<open>
  Away from a zero threshold, with an amount that \<^verbatim>\<open>float\<close> converts without
  \<^verbatim>\<open>OverflowError\<close>, and with a numeric (or missing) tenure entry when the condition is
  \<^verbatim>\<open>high_tenure\<close>, the evaluator returns what the specification's wording gives.
\<close>

lemma evaluate_condition_meets_spec:
  assumes "thr \<noteq> Some 0"
      and "cond = ''high_value'' \<longrightarrow>
             (\<forall>m. py_float sf (dict_get (map_of arguments ''amount'') (PInt 0)) \<noteq> Inl (OverflowError m))"
      and "cond = ''high_tenure'' \<longrightarrow>
             py_number (dict_get (session ''customer_tenure_days'') (PInt 0)) = Some days"
  shows "fst (evaluate_condition sf cond session arguments thr)
           = Inr (spec_condition sf cond days arguments thr)"
proof (cases "cond = ''high_value''")
  case True
  let ?amount = "dict_get (map_of arguments ''amount'') (PInt 0)"
  show ?thesis
  proof (cases "py_float sf ?amount")
    case (Inr x)
    then have "spec_amount sf arguments = x"
      by (cases "map_of arguments ''amount''")
         (simp_all add: spec_amount_def float_of_small_int)
    with Inr True assms(1) show ?thesis
      by (simp add: evaluate_condition_def spec_condition_def or_default_present)
  next
    case (Inl e)
    with True assms(2) py_float_errors [OF Inl]
    obtain m where e: "e = TypeError m \<or> e = ValueError m"
      by auto
    from Inl have "spec_amount sf arguments = 0"
      by (cases "map_of arguments ''amount''")
         (simp_all add: spec_amount_def float_of_small_int)
    with Inl e True assms(1) show ?thesis
      by (auto simp: evaluate_condition_def spec_condition_def or_default_present)
  qed
next
  case False
  with assms(1,3) show ?thesis
    by (simp add: evaluate_condition_def spec_condition_def Let_def or_default_present)
qed

text \<open>
  C6. The evaluator at \<^verbatim>\<open>threshold = 0\<close>: \<^verbatim>\<open>threshold or 100\<close> takes the zero for a missing
  threshold, so an amount of 50 is compared with 100 and the condition is false where the
  specification's wording (50 against 0) makes it true; likewise \<^verbatim>\<open>high_tenure\<close> compares
  100 days with 730. A \<^verbatim>\<open>reject\<close> rule with threshold 0 therefore lets the refund run.
\<close>

theorem zero_threshold_is_treated_as_absent:
  "fst (evaluate_condition no_str_float ''high_value'' (session_of ctx_standard) refund_50 (Some 0))
      = Inr False
   \<and> spec_condition no_str_float ''high_value'' 0 refund_50 (Some 0) = True
   \<and> fst (evaluate_condition no_str_float ''high_tenure''
            [''customer_tenure_days'' \<mapsto> PInt 100] [] (Some 0))
      = Inr False
   \<and> spec_condition no_str_float ''high_tenure'' 100 [] (Some 0) = True
   \<and> fst (intent_constitution_hook no_str_float (Inr (Some zero_threshold_constitution)) ctx_standard
            ''stripe_refund'' (invoke mock_fn) refund_50) = Inr ''ok''
   \<and> invocations (snd (intent_constitution_hook no_str_float (Inr (Some zero_threshold_constitution))
            ctx_standard ''stripe_refund'' (invoke mock_fn) refund_50)) = [refund_50]"
  by (simp add: fixtures fixtures2 evals zero_threshold_constitution_def spec_condition_def
        spec_amount_def Let_def)

section \<open>Escalation delivery: the fallback and the payload\<close>

text \<open>
  What the hook does once the payload is built: without a webhook URL (none, or the empty
  string) it is the local notification alone; when the post raises, or the response's
  status check raises, the failure is logged and the local notification follows; in every
  one of these cases the hook returns normally.
\<close>

lemma build_payload_total:
  assumes "result_score result = Some score" and "result_input result = Some inp"
  shows "\<exists>body. build_payload result = Inr body"
  using assms by (simp add: build_payload_def Let_def)

lemma slack_call_unconfigured:
  assumes "\<not> truthy (webhook_url self)"
  shows "slack_call post raise_for_status self result =
           (Inr (),
            [Log ERROR ''[ESCALATION] Output failed intent alignment check.'' [],
             Log ERROR ''[ESCALATION] Result: %s'' [AResult result],
             Print escalation_banner])"
  using assms by (simp add: slack_call_def default_escalation_hook_def)

lemma slack_call_falls_back:
  assumes "webhook_url self = Some url" and "url \<noteq> []"
      and "build_payload result = Inr body"
      and "post url body = Inl exc
           \<or> (\<exists>response. post url body = Inr response \<and> raise_for_status response = Some exc)"
  shows "slack_call post raise_for_status self result =
           (Inr (),
            [HttpPost url body,
             Log ERROR ''[SLACK] Failed to send escalation alert: %s'' [AExn exc],
             Log ERROR ''[ESCALATION] Output failed intent alignment check.'' [],
             Log ERROR ''[ESCALATION] Result: %s'' [AResult result],
             Print escalation_banner])"
  using assms by (auto simp: slack_call_def Let_def default_escalation_hook_def)

lemma slack_call_delivers:
  assumes "webhook_url self = Some url" and "url \<noteq> []"
      and "build_payload result = Inr body"
      and "post url body = Inr response" and "raise_for_status response = None"
  shows "slack_call post raise_for_status self result =
           (Inr (),
            [HttpPost url body, Log INFO ''[SLACK] Escalation alert sent successfully.'' []])"
  using assms by (simp add: slack_call_def Let_def)

lemma slack_call_returns:
  assumes "\<not> truthy (webhook_url self) \<or> (\<exists>body. build_payload result = Inr body)"
  shows "fst (slack_call post raise_for_status self result) = Inr ()"
  using assms
  by (auto simp: slack_call_def Let_def default_escalation_hook_def
        split: sum.splits option.splits)

lemma slack_call_payload_error:
  assumes "truthy (webhook_url self)" and "build_payload result = Inl e"
  shows "slack_call post raise_for_status self result = (Inl e, [])"
  using assms by (simp add: slack_call_def Let_def)


section \<open>Wrapping an agent\<close>

text \<open>
  C9. After \<^verbatim>\<open>wrap\<close> the agent's hook list is the logger hook, then the constitution hook
  bound to the governor's constitution, then every hook the agent had before, in the
  order it had them (none when the agent had no list).
\<close>

theorem wrap_prepends_to_existing_hooks:
  "tool_hooks (wrap self agent) =
     Some ([Logger_hook, Constitution_hook (constitution_path self)] @ dict_get (tool_hooks agent) [])
   \<and> take 2 (dict_get (tool_hooks (wrap self agent)) [])
       = [Logger_hook, Constitution_hook (constitution_path self)]
   \<and> drop 2 (dict_get (tool_hooks (wrap self agent)) []) = dict_get (tool_hooks agent) []"
  by (simp add: wrap_def Let_def)

theorem wrap_prepends_to_existing_hooks_witness:
  "tool_hooks (wrap governor
       \<lparr>tool_hooks = Some [Caller_hook ''metrics'', Logger_hook, Caller_hook ''retry''],
        instructions = Caller_instructions ''Be brief.''\<rparr>)
     = Some [Logger_hook, Constitution_hook ''constitutions/acme_corp.yaml'',
             Caller_hook ''metrics'', Logger_hook, Caller_hook ''retry'']
   \<and> tool_hooks (wrap governor
       \<lparr>tool_hooks = (None :: string tool_hook list option),
        instructions = Caller_instructions ''Be brief.''\<rparr>)
     = Some [Logger_hook, Constitution_hook ''constitutions/acme_corp.yaml'']"
  using wrap_prepends_to_existing_hooks
          [of governor "\<lparr>tool_hooks = Some [Caller_hook ''metrics'', Logger_hook, Caller_hook ''retry''],
                          instructions = Caller_instructions ''Be brief.''\<rparr>"]
        wrap_prepends_to_existing_hooks
          [of governor "\<lparr>tool_hooks = (None :: string tool_hook list option),
                          instructions = Caller_instructions ''Be brief.''\<rparr>"]
  by (simp add: governor_def)

end
